theory Spec2Isabelle
  imports Main "HOL-Library.Word" "HOL-Library.AList"
begin

unbundle bit_operations_syntax

section \<open>String helpers of the JavaScript runtime\<close>

text \<open>
  JavaScript strings are modelled as \<^typ>\<open>string\<close>. \<open>x.replace(/c/g, 'd')\<close> with a
  one-character pattern replaces every occurrence of the character; with the empty
  replacement it deletes every occurrence.
\<close>

definition replace_all :: "char \<Rightarrow> char \<Rightarrow> string \<Rightarrow> string" where
  "replace_all c d x = map (\<lambda>a. if a = c then d else a) x"

definition remove_all :: "char \<Rightarrow> string \<Rightarrow> string" where
  "remove_all c x = filter (\<lambda>a. a \<noteq> c) x"

section \<open>AcmeUtils: Base64url translation\<close>

text \<open>\<open>fromStandardB64(x)\<close>: \<open>x.replace(/[+]/g, '-').replace(/\//g, '_').replace(/=/g, '')\<close>.\<close>

definition fromStandardB64 :: "string \<Rightarrow> string" where
  "fromStandardB64 x =
     remove_all (CHR ''='') (replace_all (CHR ''/'') (CHR ''_'') (replace_all (CHR ''+'') (CHR ''-'') x))"

text \<open>
  \<open>toStandardB64(x)\<close>: translate the alphabet back, delete every \<open>=\<close>, then
  \<open>switch (b64.length % 4)\<close> appends \<open>==\<close> in case 2, \<open>=\<close> in case 3 and nothing
  otherwise.
\<close>

definition toStandardB64 :: "string \<Rightarrow> string" where
  "toStandardB64 x =
     (let b64 = remove_all (CHR ''='')
                  (replace_all (CHR ''_'') (CHR ''/'') (replace_all (CHR ''-'') (CHR ''+'') x))
      in if length b64 mod 4 = 2 then b64 @ ''==''
         else if length b64 mod 4 = 3 then b64 @ ''=''
         else b64)"

text \<open>The number of pad characters \<open>=\<close> in a string.\<close>

definition pad_count :: "string \<Rightarrow> nat" where
  "pad_count s = length (filter (\<lambda>a. a = CHR ''='') s)"

text \<open>The translated, unpadded body that \<open>toStandardB64\<close> pads.\<close>

definition b64_body :: "string \<Rightarrow> string" where
  "b64_body x =
     remove_all (CHR ''='') (replace_all (CHR ''_'') (CHR ''/'') (replace_all (CHR ''-'') (CHR ''+'') x))"

section \<open>The Base64 codec of the Node.js runtime\<close>

text \<open>
  \<open>b64enc\<close> and \<open>b64dec\<close> call the runtime: \<open>buffer.toString('base64')\<close> and
  \<open>new Buffer(str, 'base64')\<close>. A buffer is a list of bytes. The encoder is RFC 4648 with
  padding over the table below, three bytes to four characters. The decoder reads sextets
  through the runtime's reverse table, which maps the standard and the URL-safe alphabet
  alike (\<open>+\<close> and \<open>-\<close> to 62, \<open>/\<close> and \<open>_\<close> to 63), passes over every
  character outside both alphabets, stops at the first \<open>=\<close> and needs no padding; a
  trailing group of two sextets gives one byte, of three gives two, a single one gives none.
\<close>

type_synonym byte = "8 word"

definition b64_table :: string where
  "b64_table = ''ABCDEFGHIJKLMNOPQRSTUVWXYZabcdefghijklmnopqrstuvwxyz0123456789+/''"

definition b64char :: "byte \<Rightarrow> char" where
  "b64char w = b64_table ! unat w"

fun base64_encode :: "byte list \<Rightarrow> string" where
  "base64_encode (a # b # c # r) =
     b64char (drop_bit 2 a) #
     b64char (push_bit 4 (a AND 0x03) OR drop_bit 4 b) #
     b64char (push_bit 2 (b AND 0x0F) OR drop_bit 6 c) #
     b64char (c AND 0x3F) # base64_encode r"
| "base64_encode [a, b] =
     [b64char (drop_bit 2 a),
      b64char (push_bit 4 (a AND 0x03) OR drop_bit 4 b),
      b64char (push_bit 2 (b AND 0x0F)),
      CHR ''='']"
| "base64_encode [a] =
     [b64char (drop_bit 2 a), b64char (push_bit 4 (a AND 0x03)), CHR ''='', CHR ''='']"
| "base64_encode [] = []"

fun index_of :: "'a \<Rightarrow> 'a list \<Rightarrow> nat option" where
  "index_of c [] = None"
| "index_of c (x # xs) = (if c = x then Some 0 else map_option Suc (index_of c xs))"

definition unbase64 :: "char \<Rightarrow> byte option" where
  "unbase64 c =
     (if c = CHR ''-'' then Some 62
      else if c = CHR ''_'' then Some 63
      else map_option of_nat (index_of c b64_table))"

fun decode_sextets :: "byte list \<Rightarrow> byte list" where
  "decode_sextets (s1 # s2 # s3 # s4 # r) =
     (push_bit 2 (s1 AND 0x3F) OR drop_bit 4 (s2 AND 0x30)) #
     (push_bit 4 (s2 AND 0x0F) OR drop_bit 2 (s3 AND 0x3C)) #
     (push_bit 6 (s3 AND 0x03) OR (s4 AND 0x3F)) # decode_sextets r"
| "decode_sextets [s1, s2, s3] =
     [push_bit 2 (s1 AND 0x3F) OR drop_bit 4 (s2 AND 0x30),
      push_bit 4 (s2 AND 0x0F) OR drop_bit 2 (s3 AND 0x3C)]"
| "decode_sextets [s1, s2] = [push_bit 2 (s1 AND 0x3F) OR drop_bit 4 (s2 AND 0x30)]"
| "decode_sextets [s1] = []"
| "decode_sextets [] = []"

definition sextet_stream :: "string \<Rightarrow> byte list" where
  "sextet_stream s = List.map_filter unbase64 (takeWhile (\<lambda>c. c \<noteq> CHR ''='') s)"

definition base64_decode :: "string \<Rightarrow> byte list" where
  "base64_decode s = decode_sextets (sextet_stream s)"

text \<open>\<open>b64enc(buffer)\<close>: \<open>this.fromStandardB64(buffer.toString('base64'))\<close>.\<close>

definition b64enc :: "byte list \<Rightarrow> string" where
  "b64enc buffer = fromStandardB64 (base64_encode buffer)"

text \<open>\<open>b64dec(str)\<close>: \<open>new Buffer(str, 'base64')\<close>.\<close>

definition b64dec :: "string \<Rightarrow> byte list" where
  "b64dec str = base64_decode str"

text \<open>Auxiliary: the sextets of a buffer, and one character through \<open>fromStandardB64\<close>.\<close>

fun sextets_of :: "byte list \<Rightarrow> byte list" where
  "sextets_of (a # b # c # r) =
     drop_bit 2 a # (push_bit 4 (a AND 0x03) OR drop_bit 4 b) #
     (push_bit 2 (b AND 0x0F) OR drop_bit 6 c) # (c AND 0x3F) # sextets_of r"
| "sextets_of [a, b] =
     [drop_bit 2 a, push_bit 4 (a AND 0x03) OR drop_bit 4 b, push_bit 2 (b AND 0x0F)]"
| "sextets_of [a] = [drop_bit 2 a, push_bit 4 (a AND 0x03)]"
| "sextets_of [] = []"

definition url_char :: "char \<Rightarrow> char" where
  "url_char c = (if c = CHR ''+'' then CHR ''-'' else if c = CHR ''/'' then CHR ''_'' else c)"

section \<open>JavaScript values\<close>

text \<open>
  The values the client handles are JSON-like: \<open>undefined\<close>, \<open>null\<close>, booleans,
  numbers, strings, arrays and plain objects. A number is an integer of magnitude below
  \<open>2^53\<close>, given by its sign and 53 bits (so \<open>-0\<close> is a value): these are exact in
  JavaScript and print in decimal; fractions and larger numbers are outside the model. An
  object is the list of its own properties in insertion order; no property holds a
  function.
\<close>

text \<open>
  What is thrown or rejected: a \<open>TypeError\<close>, an \<open>Error\<close>, or whatever
  \<open>request-promise\<close> rejects with (a transport failure or a response whose status is
  not 2xx), here \<open>RequestError\<close>.
\<close>

datatype error = TypeError string | Error string | RequestError string

datatype json =
    JUndefined
  | JNull
  | JBool bool
  | JNum bool "53 word"
  | JStr string
  | JArr "json list"
  | JObj "(string \<times> json) list"

text \<open>Truthiness, as \<open>if (v)\<close> and \<open>!v\<close> decide it.\<close>

fun truthy :: "json \<Rightarrow> bool" where
  "truthy JUndefined = False"
| "truthy JNull = False"
| "truthy (JBool b) = b"
| "truthy (JNum neg m) = (m \<noteq> 0)"
| "truthy (JStr s) = (s \<noteq> [])"
| "truthy (JArr xs) = True"
| "truthy (JObj kvs) = True"

text \<open>
  \<open>ToString\<close>, as string concatenation and property keys apply it. A number prints in
  decimal, \<open>-0\<close> as \<open>0\<close>. An array joins the strings of its elements with commas,
  \<open>null\<close> and \<open>undefined\<close> giving the empty string. A plain object gives
  \<open>[object Object]\<close> through the inherited \<open>toString\<close>; when it has an own property
  \<open>toString\<close>, whose value is not a function, the conversion finds no callable method
  that gives a primitive and throws a TypeError.
\<close>

fun show_nat :: "nat \<Rightarrow> string" where
  "show_nat n =
     (if n < 10 then [''0123456789'' ! n]
      else show_nat (n div 10) @ [''0123456789'' ! (n mod 10)])"

declare show_nat.simps [simp del]

fun join :: "string \<Rightarrow> string list \<Rightarrow> string" where
  "join sep [] = []"
| "join sep [x] = x"
| "join sep (x # y # ys) = x @ sep @ join sep (y # ys)"

fun str_throws :: "json \<Rightarrow> bool" where
  "str_throws (JObj kvs) = (''toString'' \<in> set (map fst kvs))"
| "str_throws (JArr xs) = (\<exists>x \<in> set xs. str_throws x)"
| "str_throws v = False"

fun str_text :: "json \<Rightarrow> string" where
  "str_text JUndefined = ''undefined''"
| "str_text JNull = ''null''"
| "str_text (JBool b) = (if b then ''true'' else ''false'')"
| "str_text (JNum neg m) = (if neg \<and> m \<noteq> 0 then ''-'' else []) @ show_nat (unat m)"
| "str_text (JStr s) = s"
| "str_text (JArr xs) =
     join '','' (map (\<lambda>x. if x = JUndefined \<or> x = JNull then [] else str_text x) xs)"
| "str_text (JObj kvs) = ''[object Object]''"

definition to_string :: "json \<Rightarrow> error + string" where
  "to_string v =
     (if str_throws v then Inl (TypeError ''Cannot convert object to primitive value'')
      else Inr (str_text v))"



fun js_get :: "json \<Rightarrow> string \<Rightarrow> json" where
  "js_get (JObj kvs) k = (case map_of kvs k of Some v \<Rightarrow> v | None \<Rightarrow> JUndefined)"
| "js_get (JArr xs) k =
     (if k = ''length'' then JNum False (of_nat (length xs))
      else (case filter (\<lambda>i. show_nat i = k) [0..<length xs] of
              i # _ \<Rightarrow> xs ! i
            | [] \<Rightarrow> JUndefined))"
| "js_get v k = JUndefined"


section \<open>AcmeUtils: structural validators\<close>









section \<open>Link header parsing\<close>

text \<open>
  The string operations \<open>_parseLink\<close> uses. \<open>s.split(c)\<close> on a one-character separator
  gives at least one piece. \<open>trim\<close> removes white space at both ends; header text holds
  one character per byte, where the white space is TAB, LF, VT, FF, CR, SPACE and NBSP.
\<close>

fun split_on :: "char \<Rightarrow> string \<Rightarrow> string list" where
  "split_on c [] = [[]]"
| "split_on c (x # xs) =
     (if x = c then [] # split_on c xs
      else (case split_on c xs of y # ys \<Rightarrow> (x # y) # ys | [] \<Rightarrow> [[x]]))"

definition is_space :: "char \<Rightarrow> bool" where
  "is_space c = ((of_char c :: nat) \<in> {9, 10, 11, 12, 13, 32, 160})"

definition trim :: "string \<Rightarrow> string" where
  "trim s = rev (dropWhile is_space (rev (dropWhile is_space s)))"

text \<open>
  \<open>x.replace(/^<([^>]*)>$/, '$1')\<close>: a string that is \<open><\<close>, then characters other than
  \<open>>\<close>, then \<open>>\<close> at its very end, becomes what stands between; any other string is
  left as it is.
\<close>

fun strip_angle :: "string \<Rightarrow> string" where
  "strip_angle [] = []"
| "strip_angle (c # r) =
     (if c = CHR ''<'' \<and> r \<noteq> [] \<and> last r = CHR ''>'' \<and> CHR ''>'' \<notin> set (butlast r)
      then butlast r else c # r)"

text \<open>
  \<open>p.match(/^([^= ]+) *= *"([^"]+)"$/)\<close>: a non-empty key without \<open>=\<close> and space,
  spaces, \<open>=\<close>, spaces, then a non-empty value without \<open>"\<close> between two \<open>"\<close>, the
  second at the very end. The greedy key is the longest such prefix.
\<close>

definition match_attr :: "string \<Rightarrow> (string \<times> string) option" where
  "match_attr p =
     (let key = takeWhile (\<lambda>c. c \<noteq> CHR ''='' \<and> c \<noteq> CHR '' '') p;
          r1 = dropWhile (\<lambda>c. c = CHR '' '') (drop (length key) p)
      in if key = [] then None
         else (case r1 of
                 [] \<Rightarrow> None
               | c1 # r2 \<Rightarrow>
                   if c1 \<noteq> CHR ''='' then None
                   else (case dropWhile (\<lambda>c. c = CHR '' '') r2 of
                           [] \<Rightarrow> None
                         | c2 # r3 \<Rightarrow>
                             if c2 = CHR 0x22 \<and> r3 \<noteq> [] \<and> last r3 = CHR 0x22
                                \<and> butlast r3 \<noteq> [] \<and> CHR 0x22 \<notin> set (butlast r3)
                             then Some (key, butlast r3) else None)))"

text \<open>
  An object used as a dictionary of strings. \<open>acc[k] = v\<close> updates the entry or appends
  it; on the key \<open>__proto__\<close> the assignment of a string is ignored by the runtime.
\<close>

type_synonym dict = "(string \<times> string) list"

definition dict_set :: "string \<Rightarrow> string \<Rightarrow> dict \<Rightarrow> dict" where
  "dict_set k v d = (if k = ''__proto__'' then d else AList.update k v d)"

text \<open>
  \<open>_parseLink(link)\<close>. An absent header is \<open>undefined\<close>: \<open>link.split\<close> throws, the
  \<open>catch\<close> returns \<open>null\<close>, here \<open>None\<close>. On a string nothing throws: each piece
  between commas gives an \<open>info\<close> dictionary of its attributes with \<open>url\<close> set last, and
  the pieces with a \<open>rel\<close> are folded, in order, into the result.
\<close>

definition link_info :: "string \<Rightarrow> dict" where
  "link_info lnk =
     (let parts = split_on (CHR '';'') (trim lnk);
          url = strip_angle (hd parts);
          info = foldl (\<lambda>acc p. case match_attr (trim p) of
                                   Some (k, v) \<Rightarrow> dict_set k v acc
                                 | None \<Rightarrow> acc) [] (tl parts)
      in dict_set ''url'' url info)"

definition add_rel :: "dict \<Rightarrow> dict \<Rightarrow> dict" where
  "add_rel acc info =
     (case map_of info ''rel'' of
        Some rel \<Rightarrow> dict_set rel (case map_of info ''url'' of Some u \<Rightarrow> u | None \<Rightarrow> []) acc
      | None \<Rightarrow> acc)"

fun priv_parseLink :: "string option \<Rightarrow> dict option" where
  "priv_parseLink None = None"
| "priv_parseLink (Some link) =
     Some (foldl add_rel [] (map link_info (split_on (CHR '','') link)))"

section \<open>HTTP exchanges and the response wrapper\<close>

record response =
  headers :: "(string \<times> string) list"
  body :: json

type_synonym reply = "error + response"

text \<open>A header of a response, \<open>resp.headers[name]\<close>: absent is \<open>undefined\<close>.\<close>

definition header :: "response \<Rightarrow> string \<Rightarrow> string option" where
  "header resp name = map_of (headers resp) name"

text \<open>
  The object \<open>_post\<close> returns: the body with the links and the location attached under
  the symbols \<open>LINKS\<close> and \<open>LOCATION\<close>. \<open>links = None\<close> is a \<open>null\<close> or missing
  \<open>LINKS\<close> property.
\<close>

record wrapper =
  w_body :: json
  w_links :: "dict option"
  w_location :: "string option"



text \<open>\<open>getLocation(obj)\<close>.\<close>

definition getLocation :: "wrapper option \<Rightarrow> error + string option" where
  "getLocation obj =
     (case obj of
        None \<Rightarrow> Inl (TypeError ''Invalid object, no location'')
      | Some w \<Rightarrow> Inr (w_location w))"

section \<open>The AcmeProtocol client\<close>

text \<open>
  The private key is an object of the \<open>node-jose\<close> library
  (\<open>jose.JWK.BaseKey\<close>); the client reads its property \<open>thumbprint\<close>, without
  calling it, and hands the key to the signing function. The property holds data or a
  method; on the keys of that library it is a method. In a string concatenation a method
  gives its source text.
\<close>

datatype member = Data json | Method string

fun member_string :: "member \<Rightarrow> error + string" where
  "member_string (Data v) = to_string v"
| "member_string (Method src) = Inr src"

record jwk_key =
  thumbprint :: member

text \<open>
  Modelled from the spec: \<open>crypto-utils.generateSignature\<close> is required by the client
  but its file is not among the sources. The spec calls its result "an opaque structure
  produced by the signing collaborator from {private key, nonce, payload}" that the client
  "never inspects", "only transmits": a signed envelope is the triple it was made from.
\<close>

datatype jws = Signed jwk_key string json

definition generateSignature :: "jwk_key \<Rightarrow> string \<Rightarrow> json \<Rightarrow> jws" where
  "generateSignature k nonce payload = Signed k nonce payload"

text \<open>
  The requests the client dispatches with \<open>request-promise\<close>: \<open>rp.head\<close>, \<open>rp.get\<close>
  and \<open>rp.post\<close> (with the flag \<open>binary\<close>), each to a URI, which is whatever value the
  caller or the directory supplied. The headers of a request are not part of the model.
\<close>

datatype request = HEAD json | GET json | POST json jws bool

text \<open>
  A promise is pending or settled. A function that may throw before it returns its promise
  gives \<open>Inl\<close> for the synchronous throw and \<open>Inr\<close> for the returned promise.
\<close>

datatype 'a settled = Rejected error | Fulfilled 'a

datatype 'a promise = Pending | Settled "'a settled"

text \<open>
  The state: the fields of the instance (\<open>privateKey\<close>, \<open>directoryURI\<close>, \<open>nonces\<close>,
  \<open>dirPromise\<close>), the promises created for directory fetches, to which \<open>dirPromise\<close>
  refers by index, and the log of the requests dispatched so far.
\<close>

record state =
  privateKey :: jwk_key
  directoryURI :: string
  nonces :: "string list"
  dirPromise :: "nat option"
  promises :: "json promise list"
  sent :: "request list"

definition DEFAULTS_directoryURI :: string where
  "DEFAULTS_directoryURI = ''https://acme-staging.api.letsencrypt.org/directory''"

text \<open>
  \<open>constructor(privateKey, directoryURI)\<close>: throws without a key; the pool starts empty,
  \<open>dirPromise\<close> is unset, and a missing or empty URI gives the default.
\<close>

definition new_state :: "jwk_key \<Rightarrow> string \<Rightarrow> state" where
  "new_state k u =
     \<lparr> privateKey = k, directoryURI = u, nonces = [], dirPromise = None,
       promises = [], sent = [] \<rparr>"

definition AcmeProtocol :: "jwk_key option \<Rightarrow> string option \<Rightarrow> error + state" where
  "AcmeProtocol key uri =
     (case key of
        None \<Rightarrow> Inl (TypeError ''privateKey required'')
      | Some k \<Rightarrow>
          Inr (new_state k (case uri of
                              None \<Rightarrow> DEFAULTS_directoryURI
                            | Some u \<Rightarrow> if u = [] then DEFAULTS_directoryURI else u)))"

subsection \<open>The nonce pool\<close>

text \<open>
  The deposit, written twice in the source, in \<open>_post\<close> and in \<open>directory\<close>:
  \<open>if (resp.headers['replay-nonce']) { this.nonces.push(resp.headers['replay-nonce']); }\<close>.
\<close>

definition deposit :: "string option \<Rightarrow> state \<Rightarrow> state" where
  "deposit hdr s =
     (case hdr of
        None \<Rightarrow> s
      | Some n \<Rightarrow> if n \<noteq> [] then s\<lparr>nonces := nonces s @ [n]\<rparr> else s)"

text \<open>
  \<open>_nonce(uri)\<close>: \<open>this.nonces.shift()\<close> removes the first token, if any; a truthy one
  is the result. Otherwise a \<open>HEAD\<close> request goes to \<open>uri\<close> and the result is the
  \<open>replay-nonce\<close> header of the reply, or the error \<open>No nonce available\<close>.
\<close>

definition nonce_probe :: "json \<Rightarrow> reply \<Rightarrow> state \<Rightarrow> string settled \<times> state" where
  "nonce_probe uri head_reply s =
     (let s' = s\<lparr>sent := sent s @ [HEAD uri]\<rparr>
      in case head_reply of
           Inl e \<Rightarrow> (Rejected e, s')
         | Inr resp \<Rightarrow>
             (case header resp ''replay-nonce'' of
                None \<Rightarrow> (Rejected (Error ''No nonce available''), s')
              | Some n \<Rightarrow>
                  if n \<noteq> [] then (Fulfilled n, s')
                  else (Rejected (Error ''No nonce available''), s')))"

definition priv_nonce :: "json \<Rightarrow> reply \<Rightarrow> state \<Rightarrow> string settled \<times> state" where
  "priv_nonce uri head_reply s =
     (case nonces s of
        [] \<Rightarrow> nonce_probe uri head_reply s
      | nonce # rest \<Rightarrow>
          if nonce \<noteq> [] then (Fulfilled nonce, s\<lparr>nonces := rest\<rparr>)
          else nonce_probe uri head_reply (s\<lparr>nonces := rest\<rparr>))"

subsection \<open>Signed POST\<close>

text \<open>
  The objects the caller passes by reference live in a heap; a payload is such a reference
  or an object literal built by the client. The payload is read when it is signed.
\<close>

type_synonym heap = "nat \<Rightarrow> (string \<times> json) list"

datatype payload = Ref nat | Lit json

fun read_payload :: "heap \<Rightarrow> payload \<Rightarrow> json" where
  "read_payload h (Ref r) = JObj (h r)"
| "read_payload h (Lit v) = v"

text \<open>
  The last \<open>then\<close> of \<open>_post\<close>: \<open>out\<close> is the body, or \<open>{body: ...}\<close> in binary mode;
  the links and the location are attached, which throws in strict mode when \<open>out\<close> is
  not an object; then the nonce of the reply is deposited.
\<close>

fun attachable :: "json \<Rightarrow> bool" where
  "attachable (JObj kvs) = True"
| "attachable (JArr xs) = True"
| "attachable v = False"

definition post_response :: "bool \<Rightarrow> response \<Rightarrow> state \<Rightarrow> wrapper settled \<times> state" where
  "post_response binary resp s =
     (let out = (if binary then JObj [(''body'', body resp)] else body resp)
      in if \<not> attachable out then (Rejected (TypeError ''Cannot create property on a primitive''), s)
         else (Fulfilled \<lparr> w_body = out,
                            w_links = priv_parseLink (header resp ''link''),
                            w_location = header resp ''location'' \<rparr>,
               deposit (header resp ''replay-nonce'') s))"

text \<open>
  \<open>_post(uri, body, binary)\<close>, run to completion against the replies of the server: the
  reply to the nonce probe, used only if a probe is made, and the reply to the POST.
\<close>

definition priv_post ::
  "json \<Rightarrow> payload \<Rightarrow> bool \<Rightarrow> reply \<Rightarrow> reply \<Rightarrow> heap \<Rightarrow> state \<Rightarrow> wrapper settled \<times> state" where
  "priv_post uri pl binary head_reply post_reply h s =
     (case priv_nonce uri head_reply s of
        (Rejected e, s1) \<Rightarrow> (Rejected e, s1)
      | (Fulfilled nonce, s1) \<Rightarrow>
          (let jws = generateSignature (privateKey s1) nonce (read_payload h pl);
               s2 = s1\<lparr>sent := sent s1 @ [POST uri jws binary]\<rparr>
           in case post_reply of
                Inl e \<Rightarrow> (Rejected e, s2)
              | Inr resp \<Rightarrow> post_response binary resp s2))"

subsection \<open>The directory\<close>

text \<open>
  \<open>directory()\<close>: when \<open>this.dirPromise\<close> is unset, the GET is dispatched and the new
  promise is stored; the stored promise is returned.
\<close>

definition directory :: "state \<Rightarrow> nat \<times> state" where
  "directory s =
     (case dirPromise s of
        None \<Rightarrow>
          (let p = length (promises s)
           in (p, s\<lparr>dirPromise := Some p,
                     promises := promises s @ [Pending],
                     sent := sent s @ [GET (JStr (directoryURI s))]\<rparr>))
      | Some p \<Rightarrow> (p, s))"

text \<open>
  The fetch of promise \<open>p\<close> completes. On a response the \<open>then\<close> callback deposits the
  nonce and fulfils the promise with the body; on a failure the promise is rejected. A
  promise settles once.
\<close>

definition directory_reply :: "nat \<Rightarrow> reply \<Rightarrow> state \<Rightarrow> state" where
  "directory_reply p r s =
     (if p < length (promises s) \<and> promises s ! p = Pending then
        (case r of
           Inl e \<Rightarrow> s\<lparr>promises := (promises s)[p := Settled (Rejected e)]\<rparr>
         | Inr resp \<Rightarrow>
             (deposit (header resp ''replay-nonce'') s)
               \<lparr>promises := (promises s)[p := Settled (Fulfilled (body resp))]\<rparr>)
      else s)"

subsection \<open>Workflow operations\<close>

fun is_array :: "json \<Rightarrow> bool" where
  "is_array (JArr xs) = True"
| "is_array v = False"

text \<open>
  \<open>newRegistration(contacts, agreement)\<close>: the synchronous part throws unless
  \<open>Array.isArray(contacts)\<close>, and otherwise calls \<open>directory()\<close> and returns the promise
  chained to it.
\<close>

definition newRegistration :: "json \<Rightarrow> json \<Rightarrow> state \<Rightarrow> (error + nat) \<times> state" where
  "newRegistration contacts agreement s =
     (if \<not> is_array contacts then
        (Inl (TypeError ''contacts must be non-empty array of URIs''), s)
      else (case directory s of (p, s') \<Rightarrow> (Inr p, s')))"

text \<open>
  The \<open>then\<close> callback of \<open>newRegistration\<close>, run when the directory promise is
  fulfilled with \<open>dir\<close>. Reading \<open>dir['new-reg']\<close> throws on \<open>null\<close> and
  \<open>undefined\<close>.
\<close>

definition newRegistration_then ::
  "json \<Rightarrow> json \<Rightarrow> json \<Rightarrow> reply \<Rightarrow> reply \<Rightarrow> heap \<Rightarrow> state \<Rightarrow> wrapper settled \<times> state" where
  "newRegistration_then contacts agreement dir head_reply post_reply h s =
     (if dir = JNull \<or> dir = JUndefined then
        (Rejected (TypeError ''Cannot read property new-reg''), s)
      else if \<not> truthy (js_get dir ''new-reg'') then
        (Rejected (Error ''No new-registration endpoint available''), s)
      else
        (let payload = JObj ([(''resource'', JStr ''new-reg''), (''contact'', contacts)]
                             @ (if truthy agreement then [(''agreement'', agreement)] else []))
         in priv_post (js_get dir ''new-reg'') (Lit payload) False head_reply post_reply h s))"

text \<open>
  \<open>updateRegistration(uri, registration)\<close>: throws without a URI; sets
  \<open>registration.resource\<close> on the caller's object and posts that object.
\<close>

definition updateRegistration ::
  "json \<Rightarrow> nat \<Rightarrow> reply \<Rightarrow> reply \<Rightarrow> heap \<Rightarrow> state
     \<Rightarrow> (error + wrapper settled) \<times> heap \<times> state" where
  "updateRegistration uri registration head_reply post_reply h s =
     (if \<not> truthy uri then (Inl (TypeError ''No registration URI provided''), h, s)
      else
        (let h1 = h(registration := AList.update ''resource'' (JStr ''reg'') (h registration))
         in case priv_post uri (Ref registration) False head_reply post_reply h1 s of
              (res, s') \<Rightarrow> (Inr res, h1, s')))"

text \<open>
  \<open>challenge.token + '.' + this.privateKey.thumbprint\<close>: the token is converted to a
  string first, then the property; either conversion may throw.
\<close>

definition keyAuthorization_of :: "json \<Rightarrow> member \<Rightarrow> error + string" where
  "keyAuthorization_of token tp =
     (case to_string token of
        Inl e \<Rightarrow> Inl e
      | Inr t \<Rightarrow>
          (case member_string tp of
             Inl e \<Rightarrow> Inl e
           | Inr k \<Rightarrow> Inr (t @ ''.'' @ k)))"

text \<open>
  \<open>respondToChallenge(challenge)\<close>: throws without \<open>challenge.uri\<close>; sets
  \<open>challenge.resource\<close> on the caller's object; computes the key authorization, and if
  that throws the object keeps the \<open>resource\<close> it was given; sets
  \<open>challenge.keyAuthorization\<close> and posts the object to \<open>challenge.uri\<close>.
\<close>

definition respondToChallenge ::
  "nat \<Rightarrow> reply \<Rightarrow> reply \<Rightarrow> heap \<Rightarrow> state \<Rightarrow> (error + wrapper settled) \<times> heap \<times> state" where
  "respondToChallenge challenge head_reply post_reply h s =
     (if \<not> truthy (js_get (JObj (h challenge)) ''uri'') then
        (Inl (TypeError ''Invalid challenge object''), h, s)
      else
        (let h1 = h(challenge := AList.update ''resource'' (JStr ''challenge'') (h challenge))
         in case keyAuthorization_of (js_get (JObj (h1 challenge)) ''token'')
                   (thumbprint (privateKey s)) of
              Inl e \<Rightarrow> (Inl e, h1, s)
            | Inr keyAuthorization \<Rightarrow>
                (let h2 = h1(challenge := AList.update ''keyAuthorization''
                                            (JStr keyAuthorization) (h1 challenge))
                 in case priv_post (js_get (JObj (h2 challenge)) ''uri'') (Ref challenge) False
                           head_reply post_reply h2 s of
                      (res, s') \<Rightarrow> (Inr res, h2, s'))))"

subsection \<open>Runs of a client\<close>

text \<open>
  What happens to one client over time: calls of \<open>directory()\<close>, completions of directory
  fetches, takes from the nonce pool (\<open>_nonce\<close>, with the reply a probe would get) and
  deposits of the \<open>replay-nonce\<close> header of a response. Each step is observed: the
  promise a \<open>directory()\<close> call returned, or the result of a take together with whether a
  request was dispatched for it.
\<close>

datatype event =
    CallDirectory
  | DirectoryReply nat reply
  | TakeNonce json reply
  | Deposit "string option"

datatype obs = Returned nat | Took "string settled" bool | Quiet

definition step :: "event \<Rightarrow> state \<Rightarrow> obs \<times> state" where
  "step e s =
     (case e of
        CallDirectory \<Rightarrow> (case directory s of (p, s') \<Rightarrow> (Returned p, s'))
      | DirectoryReply p r \<Rightarrow> (Quiet, directory_reply p r s)
      | TakeNonce uri r \<Rightarrow>
          (case priv_nonce uri r s of (res, s') \<Rightarrow> (Took res (sent s' \<noteq> sent s), s'))
      | Deposit hdr \<Rightarrow> (Quiet, deposit hdr s))"

fun run :: "event list \<Rightarrow> state \<Rightarrow> obs list \<times> state" where
  "run [] s = ([], s)"
| "run (e # es) s =
     (case step e s of (ob, s') \<Rightarrow> (case run es s' of (obs, s'') \<Rightarrow> (ob # obs, s'')))"

text \<open>The directory fetches among the dispatched requests.\<close>

fun is_GET :: "request \<Rightarrow> bool" where
  "is_GET (GET uri) = True"
| "is_GET rq = False"

definition fetches :: "state \<Rightarrow> nat" where
  "fetches s = length (filter is_GET (sent s))"







text \<open>
  The directory state of a client: nothing fetched yet, or one fetch whose promise, the
  only one, is the stored one.
\<close>

definition dir_inv :: "state \<Rightarrow> bool" where
  "dir_inv s =
     ((dirPromise s = None \<and> promises s = [] \<and> fetches s = 0)
      \<or> (dirPromise s = Some 0 \<and> length (promises s) = 1 \<and> fetches s = 1))"

text \<open>
  The requests one signed POST may dispatch: the nonce probe to its URI and the POST of the
  given payload, signed with the given key.
\<close>

fun post_of :: "json \<Rightarrow> jwk_key \<Rightarrow> json \<Rightarrow> bool \<Rightarrow> request \<Rightarrow> bool" where
  "post_of uri k pl b (HEAD u) = (u = uri)"
| "post_of uri k pl b (POST u (Signed k' n p) b') = (u = uri \<and> k' = k \<and> p = pl \<and> b' = b)"
| "post_of uri k pl b (GET u) = False"

definition post_requests :: "json \<Rightarrow> jwk_key \<Rightarrow> json \<Rightarrow> bool \<Rightarrow> request list \<Rightarrow> bool" where
  "post_requests uri k pl b rqs = list_all (post_of uri k pl b) rqs"

text \<open>
  A segment of a Link header contributes a relation when its \<open>info\<close> has a \<open>rel\<close>
  whose assignment is not ignored. A part of a segment is a well-formed \<open>rel\<close> attribute
  when it matches the attribute pattern with the key \<open>rel\<close>.
\<close>

definition has_rel :: "string \<Rightarrow> bool" where
  "has_rel lnk =
     (case map_of (link_info lnk) ''rel'' of
        Some rel \<Rightarrow> rel \<noteq> ''__proto__''
      | None \<Rightarrow> False)"




section \<open>Properties of the Base64url translation\<close>

lemma length_replace_all: "length (replace_all c d x) = length x"
  by (simp add: replace_all_def)

lemma remove_all_replace_all:
  "c \<noteq> e \<Longrightarrow> d \<noteq> e \<Longrightarrow> remove_all e (replace_all c d x) = replace_all c d (remove_all e x)"
  by (induction x) (auto simp: remove_all_def replace_all_def)

lemma remove_all_append: "remove_all c (x @ y) = remove_all c x @ remove_all c y"
  by (simp add: remove_all_def)

lemma remove_all_idem: "remove_all c (remove_all c x) = remove_all c x"
  by (simp add: remove_all_def)

lemma replace_all_idem:
  "c \<noteq> d \<Longrightarrow> replace_all c d (replace_all c d x) = replace_all c d x"
  by (induction x) (auto simp: replace_all_def)

lemma replace_all_commute:
  "c \<noteq> c' \<Longrightarrow> d \<noteq> c' \<Longrightarrow> d' \<noteq> c \<Longrightarrow>
   replace_all c d (replace_all c' d' x) = replace_all c' d' (replace_all c d x)"
  by (induction x) (auto simp: replace_all_def)

lemma pad_count_remove_all: "pad_count (remove_all (CHR ''='') x) = 0"
  by (induction x) (auto simp: pad_count_def remove_all_def)

lemma pad_count_append: "pad_count (x @ y) = pad_count x + pad_count y"
  by (simp add: pad_count_def)

lemma length_b64_body: "length (b64_body x) = length (remove_all (CHR ''='') x)"
  by (simp add: b64_body_def remove_all_replace_all length_replace_all)

lemma b64_body_idem: "b64_body (b64_body x) = b64_body x"
proof -
  have a: "replace_all (CHR ''-'') (CHR ''+'') (replace_all (CHR ''_'') (CHR ''/'') y)
         = replace_all (CHR ''_'') (CHR ''/'') (replace_all (CHR ''-'') (CHR ''+'') y)" for y
    by (rule replace_all_commute) simp_all
  show ?thesis
    by (simp add: b64_body_def remove_all_replace_all remove_all_idem a replace_all_idem)
qed

lemma b64_body_pad: "b64_body (x @ replicate k (CHR ''='')) = b64_body x"
  by (induction k)
     (simp_all add: b64_body_def replace_all_def remove_all_def replicate_append_same [symmetric]
        del: replicate_Suc)

lemma toStandardB64_body:
  "toStandardB64 x =
     b64_body x @ replicate (if length (b64_body x) mod 4 = 2 then 2
                             else if length (b64_body x) mod 4 = 3 then 1 else 0) (CHR ''='')"
  by (simp add: toStandardB64_def b64_body_def Let_def numeral_2_eq_2)

lemma toStandardB64_idem: "toStandardB64 (toStandardB64 x) = toStandardB64 x"
proof -
  define k :: nat where
    "k = (if length (b64_body x) mod 4 = 2 then 2 else if length (b64_body x) mod 4 = 3 then 1 else 0)"
  have out: "toStandardB64 x = b64_body x @ replicate k (CHR ''='')"
    unfolding k_def by (rule toStandardB64_body)
  have "b64_body (toStandardB64 x) = b64_body x"
    by (simp only: out b64_body_pad b64_body_idem)
  then have "toStandardB64 (toStandardB64 x) = b64_body x @ replicate k (CHR ''='')"
    unfolding k_def by (simp only: toStandardB64_body [of "toStandardB64 x"])
  with out show ?thesis by simp
qed

text \<open>
  C8. Padding law of \<open>toStandardB64\<close>: with \<open>n\<close> the length of the input after every
  \<open>=\<close> has been stripped, the result is the translated, stripped body followed by
  exactly two pad characters when \<open>n mod 4 = 2\<close>, by exactly one when \<open>n mod 4 = 3\<close>,
  and by none when \<open>n mod 4\<close> is 0 or 1; the body itself holds no pad character, so the
  output has exactly that many; and the conversion is idempotent, also on input that is
  already padded.
\<close>

theorem toStandardB64_padding_law:
  fixes x :: string
  defines "n \<equiv> length (remove_all (CHR ''='') x)"
  shows "(n mod 4 = 2 \<longrightarrow> toStandardB64 x = b64_body x @ ''=='' \<and> pad_count (toStandardB64 x) = 2)
       \<and> (n mod 4 = 3 \<longrightarrow> toStandardB64 x = b64_body x @ ''='' \<and> pad_count (toStandardB64 x) = 1)
       \<and> (n mod 4 = 0 \<or> n mod 4 = 1 \<longrightarrow> toStandardB64 x = b64_body x \<and> pad_count (toStandardB64 x) = 0)
       \<and> toStandardB64 (toStandardB64 x) = toStandardB64 x
       \<and> toStandardB64 (x @ ''=='') = toStandardB64 x"
proof -
  have pc: "pad_count (b64_body x) = 0"
    by (simp add: b64_body_def pad_count_remove_all)
  have len: "length (b64_body x) = n"
    by (simp add: n_def length_b64_body)
  have out: "toStandardB64 x =
      (if n mod 4 = 2 then b64_body x @ ''=='' else if n mod 4 = 3 then b64_body x @ ''='' else b64_body x)"
    using len by (simp add: toStandardB64_def b64_body_def Let_def)
  have c2: "n mod 4 = 2 \<longrightarrow> toStandardB64 x = b64_body x @ ''=='' \<and> pad_count (toStandardB64 x) = 2"
    using pc by (simp add: out pad_count_append) (simp add: pad_count_def)
  have c3: "n mod 4 = 3 \<longrightarrow> toStandardB64 x = b64_body x @ ''='' \<and> pad_count (toStandardB64 x) = 1"
    using pc by (simp add: out pad_count_append) (simp add: pad_count_def)
  have c01: "n mod 4 = 0 \<or> n mod 4 = 1 \<longrightarrow> toStandardB64 x = b64_body x \<and> pad_count (toStandardB64 x) = 0"
    using pc by (auto simp: out)
  have pad2: "b64_body (x @ ''=='') = b64_body x"
    using b64_body_pad [of x 2] by (simp add: numeral_2_eq_2)
  have c5: "toStandardB64 (x @ ''=='') = toStandardB64 x"
    by (simp only: toStandardB64_body pad2)
  show ?thesis
    using c2 c3 c01 c5 toStandardB64_idem [of x] by blast
qed

theorem toStandardB64_padding_law_witness:
  "toStandardB64 ''ab'' = ''ab==''
   \<and> toStandardB64 ''a-_'' = ''a+/=''
   \<and> toStandardB64 ''abcd'' = ''abcd''
   \<and> toStandardB64 ''a=b=c'' = ''abc=''
   \<and> toStandardB64 (toStandardB64 ''a=b=c'') = toStandardB64 ''a=b=c''"
  using toStandardB64_padding_law [of "''ab''"] toStandardB64_padding_law [of "''a-_''"]
    toStandardB64_padding_law [of "''abcd''"] toStandardB64_padding_law [of "''a=b=c''"]
  by (simp add: toStandardB64_def b64_body_def remove_all_def replace_all_def)

section \<open>Base64url round trip\<close>

lemma table_roundtrip_nat:
  "list_all (\<lambda>n. url_char (b64_table ! n) \<noteq> CHR ''='' \<and>
                  unbase64 (url_char (b64_table ! n)) = Some (of_nat n)) [0..<64]"
  by code_simp

lemma table_roundtrip:
  assumes "w < 64"
  shows "url_char (b64char w) \<noteq> CHR ''=''" and "unbase64 (url_char (b64char w)) = Some w"
proof -
  from assms have "unat w < 64" by (simp add: word_less_nat_alt)
  then have "unat w \<in> set [0..<64]" by simp
  with table_roundtrip_nat
  have "url_char (b64_table ! unat w) \<noteq> CHR ''='' \<and>
        unbase64 (url_char (b64_table ! unat w)) = Some (of_nat (unat w))"
    unfolding list_all_iff by blast
  then show "url_char (b64char w) \<noteq> CHR ''=''" and "unbase64 (url_char (b64char w)) = Some w"
    by (simp_all add: b64char_def)
qed

lemma byte_eqI:
  fixes v w :: byte
  assumes "bit v 0 = bit w 0" "bit v 1 = bit w 1" "bit v 2 = bit w 2" "bit v 3 = bit w 3"
    "bit v 4 = bit w 4" "bit v 5 = bit w 5" "bit v 6 = bit w 6" "bit v 7 = bit w 7"
  shows "v = w"
proof (rule bit_word_eqI)
  fix n assume "n < LENGTH(8)"
  then have "n < 8" by simp
  then consider "n = 0" | "n = 1" | "n = 2" | "n = 3" | "n = 4" | "n = 5" | "n = 6" | "n = 7"
    by arith
  then show "bit v n = bit w n"
    by cases (use assms in \<open>simp_all only:\<close>)
qed

lemma sextet_lt:
  fixes w :: byte
  assumes "\<not> bit w 6" "\<not> bit w 7"
  shows "w < 64"
proof -
  have "take_bit 6 w = w"
    using assms by (intro byte_eqI) (simp_all add: bit_simps)
  then have "w AND mask 6 = w"
    by (simp add: take_bit_eq_mask)
  then have "uint w < 2 ^ 6"
    by (simp only: mask_eq_iff)
  then show ?thesis
    by (simp add: word_less_def)
qed

lemma sextet_bounds:
  fixes a b c :: byte
  shows "drop_bit 2 a < 64"
    and "push_bit 4 (a AND 0x03) OR drop_bit 4 b < 64"
    and "push_bit 2 (b AND 0x0F) OR drop_bit 6 c < 64"
    and "c AND 0x3F < 64"
    and "push_bit 4 (a AND 0x03) < 64"
    and "push_bit 2 (b AND 0x0F) < 64"
  by (rule sextet_lt; auto simp: bit_simps dest: bit_imp_le_length)+

lemma fromStandardB64_Cons:
  "fromStandardB64 (c # s) =
     (if c = CHR ''='' then fromStandardB64 s else url_char c # fromStandardB64 s)"
  by (simp add: fromStandardB64_def remove_all_def replace_all_def url_char_def)

lemma fromStandardB64_Nil: "fromStandardB64 [] = []"
  by (simp add: fromStandardB64_def remove_all_def replace_all_def)

lemma next_sextet:
  assumes "w < 64"
  shows "fromStandardB64 (b64char w # s) = url_char (b64char w) # fromStandardB64 s"
    and "sextet_stream (url_char (b64char w) # t) = w # sextet_stream t"
proof -
  have "b64char w \<noteq> CHR ''=''"
    using table_roundtrip(1) [OF assms] by (auto simp: url_char_def)
  then show "fromStandardB64 (b64char w # s) = url_char (b64char w) # fromStandardB64 s"
    by (simp add: fromStandardB64_Cons)
  show "sextet_stream (url_char (b64char w) # t) = w # sextet_stream t"
    using table_roundtrip [OF assms] by (simp add: sextet_stream_def)
qed

lemma sextet_stream_encode: "sextet_stream (fromStandardB64 (base64_encode x)) = sextets_of x"
proof (induction x rule: sextets_of.induct)
  case (1 a b c r)
  then show ?case
    by (simp only: base64_encode.simps sextets_of.simps next_sextet sextet_bounds)
next
  case (2 a b)
  show ?case
    by (simp only: base64_encode.simps sextets_of.simps next_sextet sextet_bounds)
       (simp add: fromStandardB64_Cons fromStandardB64_Nil sextet_stream_def)
next
  case (3 a)
  show ?case
    by (simp only: base64_encode.simps sextets_of.simps next_sextet sextet_bounds)
       (simp add: fromStandardB64_Cons fromStandardB64_Nil sextet_stream_def)
next
  case 4
  show ?case
    by (simp add: fromStandardB64_Nil sextet_stream_def)
qed

lemma regroup:
  fixes a b c :: byte
  shows "push_bit 2 (drop_bit 2 a AND 0x3F) OR
           drop_bit 4 ((push_bit 4 (a AND 0x03) OR drop_bit 4 b) AND 0x30) = a"
    and "push_bit 4 ((push_bit 4 (a AND 0x03) OR drop_bit 4 b) AND 0x0F) OR
           drop_bit 2 ((push_bit 2 (b AND 0x0F) OR drop_bit 6 c) AND 0x3C) = b"
    and "push_bit 6 ((push_bit 2 (b AND 0x0F) OR drop_bit 6 c) AND 0x03) OR
           ((c AND 0x3F) AND 0x3F) = c"
    and "push_bit 2 (drop_bit 2 a AND 0x3F) OR drop_bit 4 (push_bit 4 (a AND 0x03) AND 0x30) = a"
    and "push_bit 4 ((push_bit 4 (a AND 0x03) OR drop_bit 4 b) AND 0x0F) OR
           drop_bit 2 (push_bit 2 (b AND 0x0F) AND 0x3C) = b"
  by (rule byte_eqI; simp add: bit_simps)+

lemma decode_sextets_of: "decode_sextets (sextets_of x) = x"
  by (induction x rule: sextets_of.induct)
     (simp_all only: sextets_of.simps decode_sextets.simps regroup)

lemma b64enc_example: "b64enc [0xFB, 0xFF, 0xFE, 0x01] = ''-__-AQ''"
  by (simp add: b64enc_def fromStandardB64_def remove_all_def replace_all_def b64char_def
        b64_table_def)

lemma b64dec_example: "b64dec ''-__-AQ'' = [0xFB, 0xFF, 0xFE, 0x01]"
  using decode_sextets_of [of "[0xFB, 0xFF, 0xFE, 0x01]"]
    sextet_stream_encode [of "[0xFB, 0xFF, 0xFE, 0x01]"] b64enc_example
  by (simp only: b64dec_def base64_decode_def b64enc_def)

text \<open>
  C7. Base64url round trip: for every byte sequence \<open>x\<close>, decoding the Base64url
  encoding of \<open>x\<close> with \<open>b64dec\<close> gives back exactly \<open>x\<close>.
\<close>

theorem b64dec_b64enc: "b64dec (b64enc x) = x"
  by (simp add: b64dec_def b64enc_def base64_decode_def sextet_stream_encode decode_sextets_of)

section \<open>Key validation\<close>










section \<open>The nonce pool over a run\<close>


lemma nonce_probe_sent: "sent (snd (nonce_probe uri r s)) = sent s @ [HEAD uri]"
  by (simp add: nonce_probe_def Let_def split: sum.splits option.splits)



lemma run_Cons_snd: "snd (run (e # es) s) = snd (run es (snd (step e s)))"
  by (simp split: prod.splits)







section \<open>Directory resolution over a run\<close>

lemma nonce_probe_dir:
  "dirPromise (snd (nonce_probe uri r s)) = dirPromise s"
  "promises (snd (nonce_probe uri r s)) = promises s"
  by (simp_all add: nonce_probe_def Let_def split: sum.splits option.splits)

lemma priv_nonce_dir:
  "dirPromise (snd (priv_nonce uri r s)) = dirPromise s"
  "promises (snd (priv_nonce uri r s)) = promises s"
  "fetches (snd (priv_nonce uri r s)) = fetches s"
  by (simp_all add: priv_nonce_def nonce_probe_dir nonce_probe_sent fetches_def split: list.splits)

lemma deposit_dir:
  "dirPromise (deposit hdr s) = dirPromise s"
  "promises (deposit hdr s) = promises s"
  "sent (deposit hdr s) = sent s"
  by (simp_all add: deposit_def split: option.splits)

lemma new_state_dir_inv: "dir_inv (new_state k u)"
  by (simp add: dir_inv_def new_state_def fetches_def)

lemma step_dir_inv: "dir_inv s \<Longrightarrow> dir_inv (snd (step e s))"
proof (cases e)
  case CallDirectory
  assume "dir_inv s"
  with CallDirectory show ?thesis
    by (auto simp: dir_inv_def step_def directory_def fetches_def Let_def)
next
  case (DirectoryReply p r)
  assume "dir_inv s"
  with DirectoryReply show ?thesis
    by (auto simp: dir_inv_def step_def directory_reply_def fetches_def deposit_dir split: sum.splits)
next
  case (TakeNonce uri r)
  assume "dir_inv s"
  with TakeNonce priv_nonce_dir [of uri r s] show ?thesis
    by (auto simp: dir_inv_def step_def split: prod.splits)
next
  case (Deposit hdr)
  assume "dir_inv s"
  with Deposit show ?thesis
    by (auto simp: dir_inv_def step_def fetches_def deposit_dir)
qed

lemma step_returned: "dir_inv s \<Longrightarrow> fst (step e s) = Returned p \<Longrightarrow> p = 0"
  by (cases e) (auto simp: dir_inv_def step_def directory_def Let_def split: prod.splits option.splits)

lemma step_dirPromise:
  "dir_inv s \<Longrightarrow> dirPromise (snd (step e s)) \<noteq> None \<longleftrightarrow> dirPromise s \<noteq> None \<or> e = CallDirectory"
proof (cases e)
  case CallDirectory
  then show ?thesis by (auto simp: step_def directory_def Let_def split: option.splits)
next
  case (DirectoryReply p r)
  then show ?thesis by (auto simp: step_def directory_reply_def deposit_dir split: sum.splits)
next
  case (TakeNonce uri r)
  then show ?thesis by (simp add: step_def priv_nonce_dir case_prod_beta)
next
  case (Deposit hdr)
  then show ?thesis by (auto simp: step_def deposit_dir)
qed

lemma step_settled:
  "promises s ! p = Settled v \<Longrightarrow> p < length (promises s) \<Longrightarrow>
   promises (snd (step e s)) ! p = Settled v \<and> p < length (promises (snd (step e s)))"
proof (cases e)
  case CallDirectory
  assume "promises s ! p = Settled v" "p < length (promises s)"
  with CallDirectory show ?thesis
    by (auto simp: step_def directory_def Let_def nth_append split: option.splits)
next
  case (DirectoryReply q r)
  assume "promises s ! p = Settled v" "p < length (promises s)"
  with DirectoryReply show ?thesis
    by (cases "q = p") (auto simp: step_def directory_reply_def deposit_dir split: sum.splits)
next
  case (TakeNonce uri r)
  assume "promises s ! p = Settled v" "p < length (promises s)"
  with TakeNonce priv_nonce_dir [of uri r s] show ?thesis by (auto simp: step_def split: prod.splits)
next
  case (Deposit hdr)
  assume "promises s ! p = Settled v" "p < length (promises s)"
  with Deposit show ?thesis by (auto simp: step_def deposit_dir)
qed

lemma run_Cons_fst: "fst (run (e # es) s) = fst (step e s) # fst (run es (snd (step e s)))"
  by (simp split: prod.splits)

lemma run_dir_inv: "dir_inv s \<Longrightarrow> dir_inv (snd (run es s))"
proof (induction es arbitrary: s)
  case Nil
  then show ?case by simp
next
  case (Cons e es)
  show ?case
    unfolding run_Cons_snd by (rule Cons.IH [OF step_dir_inv [OF Cons.prems]])
qed

lemma run_returned: "dir_inv s \<Longrightarrow> Returned p \<in> set (fst (run es s)) \<Longrightarrow> p = 0"
proof (induction es arbitrary: s)
  case Nil
  then show ?case by simp
next
  case (Cons e es)
  from Cons.prems(2) have "fst (step e s) = Returned p \<or> Returned p \<in> set (fst (run es (snd (step e s))))"
    by (simp only: run_Cons_fst set_ConsD) auto
  then show ?case
    using step_returned [OF Cons.prems(1)] Cons.IH [OF step_dir_inv [OF Cons.prems(1)]] by blast
qed

lemma run_dirPromise:
  "dir_inv s \<Longrightarrow>
   dirPromise (snd (run es s)) \<noteq> None \<longleftrightarrow> dirPromise s \<noteq> None \<or> CallDirectory \<in> set es"
proof (induction es arbitrary: s)
  case Nil
  then show ?case by simp
next
  case (Cons e es)
  have "dirPromise (snd (run es (snd (step e s)))) \<noteq> None \<longleftrightarrow>
        dirPromise (snd (step e s)) \<noteq> None \<or> CallDirectory \<in> set es"
    by (rule Cons.IH [OF step_dir_inv [OF Cons.prems]])
  with step_dirPromise [OF Cons.prems, of e] show ?case
    unfolding run_Cons_snd by auto
qed

lemma run_settled:
  "promises s ! p = Settled v \<Longrightarrow> p < length (promises s) \<Longrightarrow>
   promises (snd (run es s)) ! p = Settled v"
proof (induction es arbitrary: s)
  case Nil
  then show ?case by simp
next
  case (Cons e es)
  from step_settled [OF Cons.prems, of e] Cons.IH [of "snd (step e s)"]
  show ?case unfolding run_Cons_snd by blast
qed

lemma dir_inv_fetches: "dir_inv s \<Longrightarrow> fetches s = (if dirPromise s = None then 0 else 1)"
  by (auto simp: dir_inv_def)

text \<open>
  C2. Directory resolution is memoized: in every run of a new client there is exactly one
  directory fetch if \<open>directory()\<close> is called at all and none otherwise, whatever the
  order of calls and completions; every call returns the same promise, the one of the
  first call; and once that promise is settled its result stays what it is, so every
  caller observes the same result.
\<close>

theorem directory_memoized:
  assumes "AcmeProtocol key uri = Inr s0" and "run es s0 = (obs, s)"
  shows "fetches s = (if CallDirectory \<in> set es then 1 else 0)
       \<and> (\<forall>p. Returned p \<in> set obs \<longrightarrow> p = 0)
       \<and> (\<forall>v es'. 0 < length (promises s) \<and> promises s ! 0 = Settled v
              \<longrightarrow> promises (snd (run es' s)) ! 0 = Settled v)"
proof -
  from assms(1) obtain k u where s0: "s0 = new_state k u"
    by (auto simp: AcmeProtocol_def split: option.splits)
  then have inv0: "dir_inv s0" and none0: "dirPromise s0 = None"
    by (simp_all add: new_state_dir_inv) (simp add: new_state_def)
  from assms(2) have s: "s = snd (run es s0)" and obs: "obs = fst (run es s0)" by simp_all
  have "dir_inv s" unfolding s by (rule run_dir_inv [OF inv0])
  then have "fetches s = (if dirPromise s = None then 0 else 1)" by (rule dir_inv_fetches)
  moreover have "dirPromise s \<noteq> None \<longleftrightarrow> CallDirectory \<in> set es"
    unfolding s using run_dirPromise [OF inv0, of es] none0 by simp
  ultimately have a: "fetches s = (if CallDirectory \<in> set es then 1 else 0)" by auto
  have b: "\<forall>p. Returned p \<in> set obs \<longrightarrow> p = 0"
    unfolding obs using run_returned [OF inv0] by blast
  have c: "\<forall>v es'. 0 < length (promises s) \<and> promises s ! 0 = Settled v
              \<longrightarrow> promises (snd (run es' s)) ! 0 = Settled v"
    using run_settled by blast
  from a b c show ?thesis by blast
qed

theorem directory_memoized_witness:
  "AcmeProtocol (Some \<lparr>thumbprint = Data (JStr ''K'')\<rparr>) (Some ''https://ca/directory'')
     = Inr (new_state \<lparr>thumbprint = Data (JStr ''K'')\<rparr> ''https://ca/directory'')
   \<and> fst (run [CallDirectory, CallDirectory,
               DirectoryReply 0 (Inr \<lparr>headers = [(''replay-nonce'', ''n1'')],
                                        body = JObj [(''new-reg'', JStr ''https://ca/new-reg'')]\<rparr>),
               CallDirectory]
              (new_state \<lparr>thumbprint = Data (JStr ''K'')\<rparr> ''https://ca/directory''))
       = [Returned 0, Returned 0, Quiet, Returned 0]
   \<and> fetches (snd (run [CallDirectory, CallDirectory,
               DirectoryReply 0 (Inr \<lparr>headers = [(''replay-nonce'', ''n1'')],
                                        body = JObj [(''new-reg'', JStr ''https://ca/new-reg'')]\<rparr>),
               CallDirectory]
              (new_state \<lparr>thumbprint = Data (JStr ''K'')\<rparr> ''https://ca/directory''))) = 1"
proof -
  let ?init = "new_state \<lparr>thumbprint = Data (JStr ''K'')\<rparr> ''https://ca/directory''"
  let ?es = "[CallDirectory, CallDirectory,
               DirectoryReply 0 (Inr \<lparr>headers = [(''replay-nonce'', ''n1'')],
                                        body = JObj [(''new-reg'', JStr ''https://ca/new-reg'')]\<rparr>),
               CallDirectory]"
  have h1: "AcmeProtocol (Some \<lparr>thumbprint = Data (JStr ''K'')\<rparr>) (Some ''https://ca/directory'') = Inr ?init"
    by (simp add: AcmeProtocol_def)
  have h2: "run ?es ?init = (fst (run ?es ?init), snd (run ?es ?init))"
    by simp
  have obs: "fst (run ?es ?init) = [Returned 0, Returned 0, Quiet, Returned 0]"
    by (simp add: step_def directory_def directory_reply_def deposit_def header_def new_state_def)
  from directory_memoized [OF h1 h2] obs h1 show ?thesis
    by simp
qed

section \<open>A failed directory fetch\<close>

text \<open>
  C3, as stated: after a failed directory fetch a further \<open>directory()\<close> call triggers
  a new fetch. It does not: the call returns the stored promise, which is the rejected
  one, and the number of fetches stays one.
\<close>

theorem directory_failure_retry_counterexample:
  "fst (run [CallDirectory, DirectoryReply 0 (Inl (RequestError ''ECONNREFUSED'')), CallDirectory]
          (new_state \<lparr>thumbprint = Data (JStr ''K'')\<rparr> ''https://ca/directory''))
     = [Returned 0, Quiet, Returned 0]
   \<and> promises (snd (run [CallDirectory, DirectoryReply 0 (Inl (RequestError ''ECONNREFUSED'')),
                         CallDirectory]
                        (new_state \<lparr>thumbprint = Data (JStr ''K'')\<rparr> ''https://ca/directory'')))
     = [Settled (Rejected (RequestError ''ECONNREFUSED''))]
   \<and> fetches (snd (run [CallDirectory, DirectoryReply 0 (Inl (RequestError ''ECONNREFUSED'')),
                        CallDirectory]
                       (new_state \<lparr>thumbprint = Data (JStr ''K'')\<rparr> ''https://ca/directory''))) \<noteq> 2"
  by (simp add: step_def directory_def directory_reply_def new_state_def fetches_def)

lemma directory_reply_dir_inv: "dir_inv s \<Longrightarrow> dir_inv (directory_reply p r s)"
  using step_dir_inv [of s "DirectoryReply p r"] by (simp add: step_def)

text \<open>
  C3, amended. In every run of a new client, when the pending directory fetch fails with
  an error, the one directory promise is rejected with that error, which every caller
  holding it observes; the rejection is kept: after any further events the promise is
  still rejected with that error, every \<open>directory()\<close> call returns that same promise,
  and no further fetch is made.
\<close>

theorem directory_failure_cached:
  assumes "AcmeProtocol key uri = Inr s0" and "run es s0 = (obs, s)"
    and "dirPromise s = Some p" and "promises s ! p = Pending"
    and "s1 = directory_reply p (Inl e) s" and "run es' s1 = (obs', s2)"
  shows "promises s1 ! p = Settled (Rejected e)
       \<and> promises s2 ! p = Settled (Rejected e)
       \<and> (\<forall>q. Returned q \<in> set obs' \<longrightarrow> q = p)
       \<and> fetches s2 = fetches s
       \<and> directory s2 = (p, s2)"
proof -
  from assms(1) obtain k u where s0: "s0 = new_state k u"
    by (auto simp: AcmeProtocol_def split: option.splits)
  from assms(2) have s: "s = snd (run es s0)" by simp
  have inv: "dir_inv s"
    unfolding s s0 by (rule run_dir_inv [OF new_state_dir_inv])
  with assms(3) have p: "p = 0" and len: "length (promises s) = 1" and f: "fetches s = 1"
    by (auto simp: dir_inv_def)
  have a: "promises s1 ! p = Settled (Rejected e)" and len1: "p < length (promises s1)"
    using assms(4) len p by (simp_all add: assms(5) directory_reply_def)
  have inv1: "dir_inv s1"
    unfolding assms(5) by (rule directory_reply_dir_inv [OF inv])
  have dp1: "dirPromise s1 = Some p"
    using assms(3) by (simp add: assms(5) directory_reply_def)
  from assms(6) have s2: "s2 = snd (run es' s1)" and obs': "obs' = fst (run es' s1)" by simp_all
  have b: "promises s2 ! p = Settled (Rejected e)"
    unfolding s2 by (rule run_settled [OF a len1])
  have c: "\<forall>q. Returned q \<in> set obs' \<longrightarrow> q = p"
    unfolding obs' p using run_returned [OF inv1] by blast
  have inv2: "dir_inv s2"
    unfolding s2 by (rule run_dir_inv [OF inv1])
  have dp2: "dirPromise s2 \<noteq> None"
    unfolding s2 using run_dirPromise [OF inv1, of es'] dp1 by simp
  with inv2 have dp2': "dirPromise s2 = Some p" and f2: "fetches s2 = 1"
    by (auto simp: dir_inv_def p)
  then have d: "directory s2 = (p, s2)"
    by (simp add: directory_def)
  from a b c d f f2 show ?thesis by simp
qed

theorem directory_failure_cached_witness:
  "AcmeProtocol (Some \<lparr>thumbprint = Data (JStr ''K'')\<rparr>) (Some ''https://ca/directory'')
     = Inr (new_state \<lparr>thumbprint = Data (JStr ''K'')\<rparr> ''https://ca/directory'')
   \<and> dirPromise (snd (run [CallDirectory] (new_state \<lparr>thumbprint = Data (JStr ''K'')\<rparr> ''https://ca/directory''))) = Some 0
   \<and> promises (snd (run [CallDirectory] (new_state \<lparr>thumbprint = Data (JStr ''K'')\<rparr> ''https://ca/directory''))) ! 0 = Pending
   \<and> promises (snd (run [CallDirectory]
        (directory_reply 0 (Inl (RequestError ''ECONNREFUSED''))
           (snd (run [CallDirectory] (new_state \<lparr>thumbprint = Data (JStr ''K'')\<rparr> ''https://ca/directory'')))))) ! 0
       = Settled (Rejected (RequestError ''ECONNREFUSED''))
   \<and> fetches (snd (run [CallDirectory]
        (directory_reply 0 (Inl (RequestError ''ECONNREFUSED''))
           (snd (run [CallDirectory] (new_state \<lparr>thumbprint = Data (JStr ''K'')\<rparr> ''https://ca/directory'')))))) = 1"
proof -
  let ?init = "new_state \<lparr>thumbprint = Data (JStr ''K'')\<rparr> ''https://ca/directory''"
  let ?s = "snd (run [CallDirectory] ?init)"
  let ?s1 = "directory_reply 0 (Inl (RequestError ''ECONNREFUSED'')) ?s"
  have h1: "AcmeProtocol (Some \<lparr>thumbprint = Data (JStr ''K'')\<rparr>) (Some ''https://ca/directory'') = Inr ?init"
    by (simp add: AcmeProtocol_def)
  have h2: "run [CallDirectory] ?init = (fst (run [CallDirectory] ?init), ?s)"
    by (rule prod.collapse [symmetric])
  have h3: "dirPromise ?s = Some 0" and h4: "promises ?s ! 0 = Pending" and f: "fetches ?s = 1"
    by (simp_all add: step_def directory_def new_state_def fetches_def)
  have h6: "run [CallDirectory] ?s1 = (fst (run [CallDirectory] ?s1), snd (run [CallDirectory] ?s1))"
    by (rule prod.collapse [symmetric])
  from directory_failure_cached [OF h1 h2 h3 h4 refl h6] h1 h3 h4 f show ?thesis
    by simp
qed

section \<open>Link headers\<close>

lemma update_nonempty: "AList.update k v al \<noteq> []"
  by (cases al) auto

lemma add_rel_eq:
  "add_rel acc (link_info lnk) =
     (if has_rel lnk
      then AList.update (the (map_of (link_info lnk) ''rel''))
             (case map_of (link_info lnk) ''url'' of Some u \<Rightarrow> u | None \<Rightarrow> []) acc
      else acc)"
  by (auto simp: add_rel_def has_rel_def dict_set_def split: option.splits)

lemma add_rel_keeps: "acc \<noteq> [] \<Longrightarrow> add_rel acc (link_info lnk) \<noteq> []"
  by (simp add: add_rel_eq update_nonempty)









section \<open>Workflow operations\<close>

lemma priv_nonce_key: "privateKey (snd (priv_nonce uri r s)) = privateKey s"
  by (simp add: priv_nonce_def nonce_probe_def Let_def split: list.splits sum.splits option.splits)

lemma priv_nonce_sent:
  "sent (snd (priv_nonce uri r s)) = sent s \<or> sent (snd (priv_nonce uri r s)) = sent s @ [HEAD uri]"
  by (simp add: priv_nonce_def nonce_probe_sent split: list.splits)

lemma post_response_sent: "sent (snd (post_response b resp s)) = sent s"
  by (simp add: post_response_def Let_def deposit_dir)

lemma priv_post_sent:
  "\<exists>rqs. sent (snd (priv_post uri pl b hr pr h s)) = sent s @ rqs
         \<and> post_requests uri (privateKey s) (read_payload h pl) b rqs"
proof -
  obtain res s1 where n: "priv_nonce uri hr s = (res, s1)" by (cases "priv_nonce uri hr s")
  then have k: "privateKey s1 = privateKey s"
    and se: "sent s1 = sent s \<or> sent s1 = sent s @ [HEAD uri]"
    using priv_nonce_key [of uri hr s] priv_nonce_sent [of uri hr s] by simp_all
  show ?thesis
  proof (cases res)
    case (Rejected e)
    with n se show ?thesis
      by (auto simp: priv_post_def post_requests_def)
  next
    case (Fulfilled nonce)
    let ?rq = "POST uri (Signed (privateKey s) nonce (read_payload h pl)) b"
    have "sent (snd (priv_post uri pl b hr pr h s)) = sent s1 @ [?rq]"
      using n Fulfilled k
      by (simp add: priv_post_def generateSignature_def Let_def post_response_sent split: sum.splits)
    with se show ?thesis
      by (auto simp: post_requests_def)
  qed
qed

lemma priv_post_pool:
  assumes "nonces s = n # rest" and "n \<noteq> []"
  shows "sent (snd (priv_post uri pl b hr pr h s))
           = sent s @ [POST uri (Signed (privateKey s) n (read_payload h pl)) b]"
  using assms
  by (simp add: priv_post_def priv_nonce_def generateSignature_def Let_def post_response_sent
        split: sum.splits)

lemma js_get_update: "js_get (JObj (AList.update k v kvs)) k' = (if k' = k then v else js_get (JObj kvs) k')"
  by (simp add: update_conv')

lemma newRegistration_non_array:
  "\<not> is_array contacts \<Longrightarrow>
   newRegistration contacts agreement s
     = (Inl (TypeError ''contacts must be non-empty array of URIs''), s)"
  by (simp add: newRegistration_def)

text \<open>
  C4. The claim: for contacts that are not a non-empty list of contact URIs, the empty list
  included, \<open>newRegistration\<close> fails synchronously before any network access. The
  source checks \<open>Array.isArray(contacts)\<close> only, under the message \<open>contacts must be
  non-empty array of URIs\<close>. With the empty list, on a new client, the call does not
  throw: it dispatches the directory fetch, and once the directory is there it posts a
  registration whose \<open>contact\<close> is the empty list.
\<close>

theorem newRegistration_empty_contacts_posts:
  "newRegistration (JArr []) JUndefined (new_state \<lparr>thumbprint = Data (JStr ''K'')\<rparr> ''https://ca/directory'')
     = (Inr 0, (new_state \<lparr>thumbprint = Data (JStr ''K'')\<rparr> ''https://ca/directory'')
                 \<lparr>dirPromise := Some 0, promises := [Pending],
                  sent := [GET (JStr ''https://ca/directory'')]\<rparr>)
   \<and> sent (snd (newRegistration_then (JArr []) JUndefined
                  (JObj [(''new-reg'', JStr ''https://ca/new-reg'')])
                  (Inl (RequestError ''unused''))
                  (Inr \<lparr>headers = [], body = JObj []\<rparr>)
                  (\<lambda>r. [])
                  (directory_reply 0
                     (Inr \<lparr>headers = [(''replay-nonce'', ''n1'')],
                            body = JObj [(''new-reg'', JStr ''https://ca/new-reg'')]\<rparr>)
                     (snd (newRegistration (JArr []) JUndefined
                             (new_state \<lparr>thumbprint = Data (JStr ''K'')\<rparr> ''https://ca/directory''))))))
     = [GET (JStr ''https://ca/directory''),
        POST (JStr ''https://ca/new-reg'')
          (Signed \<lparr>thumbprint = Data (JStr ''K'')\<rparr> ''n1''
             (JObj [(''resource'', JStr ''new-reg''), (''contact'', JArr [])]))
          False]"
  by (simp add: newRegistration_def newRegistration_then_def directory_def directory_reply_def
        deposit_def header_def new_state_def priv_post_def priv_nonce_def generateSignature_def
        post_response_def Let_def)


lemma priv_post_fulfilled:
  assumes "priv_nonce uri hr s = (Fulfilled n, s1)"
  shows "sent (snd (priv_post uri pl b hr pr h s))
           = sent s1 @ [POST uri (Signed (privateKey s) n (read_payload h pl)) b]"
proof -
  from assms have "privateKey s1 = privateKey s"
    using priv_nonce_key [of uri hr s] by simp
  with assms show ?thesis
    by (simp add: priv_post_def generateSignature_def Let_def post_response_sent split: sum.splits)
qed

lemma priv_post_rejected:
  "priv_nonce uri hr s = (Rejected e, s1) \<Longrightarrow> priv_post uri pl b hr pr h s = (Rejected e, s1)"
  by (simp add: priv_post_def)

lemma priv_nonce_probe:
  assumes "nonces s = []" and "header resp ''replay-nonce'' = Some n" and "n \<noteq> []"
  shows "priv_nonce uri (Inr resp) s = (Fulfilled n, s\<lparr>sent := sent s @ [HEAD uri]\<rparr>)"
  using assms by (simp add: priv_nonce_def nonce_probe_def)

lemma token_after_resource:
  "js_get (JObj (AList.update ''resource'' v kvs)) ''token'' = js_get (JObj kvs) ''token''"
  "js_get (JObj (AList.update ''resource'' v kvs)) ''uri'' = js_get (JObj kvs) ''uri''"
  "js_get (JObj (AList.update ''keyAuthorization'' w (AList.update ''resource'' v kvs))) ''uri''
     = js_get (JObj kvs) ''uri''"
  by (simp_all add: update_conv')

lemma respondToChallenge_Inr:
  assumes "truthy (js_get (JObj (h c)) ''uri'')"
    and "keyAuthorization_of (js_get (JObj (h c)) ''token'') (thumbprint (privateKey s)) = Inr ka"
  shows "respondToChallenge c hr pr h s =
     (Inr (fst (priv_post (js_get (JObj (h c)) ''uri'') (Ref c) False hr pr
                  (h(c := AList.update ''keyAuthorization'' (JStr ka)
                            (AList.update ''resource'' (JStr ''challenge'') (h c)))) s)),
      h(c := AList.update ''keyAuthorization'' (JStr ka)
                (AList.update ''resource'' (JStr ''challenge'') (h c))),
      snd (priv_post (js_get (JObj (h c)) ''uri'') (Ref c) False hr pr
             (h(c := AList.update ''keyAuthorization'' (JStr ka)
                       (AList.update ''resource'' (JStr ''challenge'') (h c)))) s))"
  using assms
  by (simp add: respondToChallenge_def Let_def case_prod_beta token_after_resource
        del: js_get.simps)

lemma respondToChallenge_throws:
  assumes "truthy (js_get (JObj (h c)) ''uri'')"
    and "keyAuthorization_of (js_get (JObj (h c)) ''token'') (thumbprint (privateKey s)) = Inl e"
  shows "respondToChallenge c hr pr h s
           = (Inl e, h(c := AList.update ''resource'' (JStr ''challenge'') (h c)), s)"
  using assms
  by (simp add: respondToChallenge_def Let_def token_after_resource del: js_get.simps)

lemma respondToChallenge_no_uri:
  "\<not> truthy (js_get (JObj (h c)) ''uri'') \<Longrightarrow>
   respondToChallenge c hr pr h s = (Inl (TypeError ''Invalid challenge object''), h, s)"
  by (simp add: respondToChallenge_def)

lemma respondToChallenge_returns:
  assumes "respondToChallenge c hr pr h s = (Inr p, h2, s2)"
  obtains ka where "truthy (js_get (JObj (h c)) ''uri'')"
    and "keyAuthorization_of (js_get (JObj (h c)) ''token'') (thumbprint (privateKey s)) = Inr ka"
proof (cases "truthy (js_get (JObj (h c)) ''uri'')")
  case False
  from respondToChallenge_no_uri [where h = h and c = c, OF False, of hr pr s] assms show ?thesis by simp
next
  case True
  show ?thesis
  proof (cases "keyAuthorization_of (js_get (JObj (h c)) ''token'') (thumbprint (privateKey s))")
    case (Inl e)
    from respondToChallenge_throws [where h = h and c = c, OF True Inl, of hr pr] assms show ?thesis by simp
  next
    case (Inr ka)
    with True that show ?thesis by blast
  qed
qed

text \<open>
  With a key whose \<open>thumbprint\<close> property is the string \<open>K\<close> and a string token, the
  key authorization left on the object and posted is the token, \<open>.\<close> and \<open>K\<close>; the
  POST is dispatched whenever a nonce is obtained, from the pool or from the probe, and
  not otherwise.
\<close>

lemma respondToChallenge_string_key:
  assumes "truthy (js_get (JObj (h c)) ''uri'')"
    and "js_get (JObj (h c)) ''token'' = JStr tok"
    and "thumbprint (privateKey s) = Data (JStr K)"
    and "respondToChallenge c hr pr h s = (res, h', s')"
  shows "js_get (JObj (h' c)) ''keyAuthorization'' = JStr (tok @ ''.'' @ K)"
    and "js_get (JObj (h' c)) ''resource'' = JStr ''challenge''"
    and "priv_nonce (js_get (JObj (h c)) ''uri'') hr s = (Fulfilled n, s1) \<Longrightarrow>
           sent s' = sent s1 @ [POST (js_get (JObj (h c)) ''uri'')
                                  (Signed (privateKey s) n (JObj (h' c))) False]"
    and "priv_nonce (js_get (JObj (h c)) ''uri'') hr s = (Rejected e, s1) \<Longrightarrow>
           res = Inr (Rejected e) \<and> s' = s1"
proof -
  define ch where "ch = AList.update ''keyAuthorization'' (JStr (tok @ ''.'' @ K))
      (AList.update ''resource'' (JStr ''challenge'') (h c))"
  define uri where "uri = js_get (JObj (h c)) ''uri''"
  have ka: "keyAuthorization_of (js_get (JObj (h c)) ''token'') (thumbprint (privateKey s))
      = Inr (tok @ ''.'' @ K)"
    unfolding assms(2) assms(3) by (simp add: keyAuthorization_of_def to_string_def)
  have "(res, h', s')
      = (Inr (fst (priv_post uri (Ref c) False hr pr (h(c := ch)) s)), h(c := ch),
         snd (priv_post uri (Ref c) False hr pr (h(c := ch)) s))"
    unfolding assms(4) [symmetric] ch_def uri_def
    by (rule respondToChallenge_Inr [where h = h and c = c, OF assms(1) ka])
  then have res: "res = Inr (fst (priv_post uri (Ref c) False hr pr (h(c := ch)) s))"
    and h': "h' = h(c := ch)"
    and s': "s' = snd (priv_post uri (Ref c) False hr pr (h(c := ch)) s)"
    by (simp_all only: prod.inject)
  have hc: "h' c = ch" by (simp add: h')
  show "js_get (JObj (h' c)) ''keyAuthorization'' = JStr (tok @ ''.'' @ K)"
    unfolding hc ch_def by (simp add: update_conv')
  show "js_get (JObj (h' c)) ''resource'' = JStr ''challenge''"
    unfolding hc ch_def by (simp add: update_conv')
  show "sent s' = sent s1 @ [POST (js_get (JObj (h c)) ''uri'')
                                  (Signed (privateKey s) n (JObj (h' c))) False]"
    if "priv_nonce (js_get (JObj (h c)) ''uri'') hr s = (Fulfilled n, s1)"
    using priv_post_fulfilled [OF that, of "Ref c" False pr "h(c := ch)"]
    by (simp add: s' hc uri_def del: js_get.simps)
  show "res = Inr (Rejected e) \<and> s' = s1"
    if "priv_nonce (js_get (JObj (h c)) ''uri'') hr s = (Rejected e, s1)"
    using priv_post_rejected [OF that, of "Ref c" False pr "h(c := ch)"]
    by (simp add: res s' uri_def del: js_get.simps)
qed

text \<open>
  C5. The claim: the posted \<open>keyAuthorization\<close> is the challenge token, then \<open>.\<close>, then
  the key thumbprint of the client's private key. The client is documented to take a
  \<open>jose.JWK.BaseKey\<close>, on which \<open>thumbprint\<close> is a method; the source reads the
  property without calling it, so what follows the \<open>.\<close> is the source text of that
  method, whatever it is. Here a new client with such a key has an empty pool: it probes
  for a nonce and posts the challenge object, which carries \<open>T.\<close> followed by the
  source text. A challenge without \<open>uri\<close> throws before any request, as claimed.
\<close>

theorem respondToChallenge_method_thumbprint:
  "fst (snd (respondToChallenge 0
              (Inr \<lparr>headers = [(''replay-nonce'', ''n1'')], body = JNull\<rparr>)
              (Inr \<lparr>headers = [], body = JObj []\<rparr>)
              (\<lambda>r. [(''uri'', JStr ''https://ca/chal/1''), (''token'', JStr ''T''),
                     (''type'', JStr ''http-01'')])
              (new_state \<lparr>thumbprint = Method src\<rparr> ''https://ca/directory''))) 0
     = [(''uri'', JStr ''https://ca/chal/1''), (''token'', JStr ''T''),
        (''type'', JStr ''http-01''), (''resource'', JStr ''challenge''),
        (''keyAuthorization'', JStr (''T.'' @ src))]
   \<and> sent (snd (snd (respondToChallenge 0
              (Inr \<lparr>headers = [(''replay-nonce'', ''n1'')], body = JNull\<rparr>)
              (Inr \<lparr>headers = [], body = JObj []\<rparr>)
              (\<lambda>r. [(''uri'', JStr ''https://ca/chal/1''), (''token'', JStr ''T''),
                     (''type'', JStr ''http-01'')])
              (new_state \<lparr>thumbprint = Method src\<rparr> ''https://ca/directory''))))
     = [HEAD (JStr ''https://ca/chal/1''),
        POST (JStr ''https://ca/chal/1'')
          (Signed \<lparr>thumbprint = Method src\<rparr> ''n1''
             (JObj [(''uri'', JStr ''https://ca/chal/1''), (''token'', JStr ''T''),
                    (''type'', JStr ''http-01''), (''resource'', JStr ''challenge''),
                    (''keyAuthorization'', JStr (''T.'' @ src))]))
          False]
   \<and> respondToChallenge 0
        (Inr \<lparr>headers = [(''replay-nonce'', ''n1'')], body = JNull\<rparr>)
        (Inr \<lparr>headers = [], body = JObj []\<rparr>)
        (\<lambda>r. [(''token'', JStr ''T''), (''type'', JStr ''http-01'')])
        (new_state \<lparr>thumbprint = Method src\<rparr> ''https://ca/directory'')
     = (Inl (TypeError ''Invalid challenge object''),
        (\<lambda>r. [(''token'', JStr ''T''), (''type'', JStr ''http-01'')]),
        new_state \<lparr>thumbprint = Method src\<rparr> ''https://ca/directory'')"
  by (simp add: respondToChallenge_def keyAuthorization_of_def to_string_def Let_def
        priv_post_def priv_nonce_def nonce_probe_def header_def generateSignature_def
        post_response_def deposit_def new_state_def)

lemma updateRegistration_Inr:
  assumes "truthy uri"
  shows "updateRegistration uri r hr pr h s =
     (let reg = AList.update ''resource'' (JStr ''reg'') (h r);
          p = priv_post uri (Ref r) False hr pr (h(r := reg)) s
      in (Inr (fst p), h(r := reg), snd p))"
  using assms by (simp add: updateRegistration_def Let_def case_prod_beta)



text \<open>
  C10. \<open>updateRegistration\<close> and \<open>respondToChallenge\<close> mutate the caller's object in
  place. After a call of \<open>updateRegistration\<close> that passes its check, the registration
  object carries \<open>resource = reg\<close>; after a call of \<open>respondToChallenge\<close> that returns
  its promise, the challenge object carries \<open>resource = challenge\<close> and the computed
  \<open>keyAuthorization\<close>; no other object of the heap changes; and the payload of every POST
  the call dispatches, which is sent whenever a nonce is obtained, is that same mutated
  object, not a copy. When computing the key authorization throws, the challenge object
  has already been given its \<open>resource\<close> and keeps it.
\<close>

theorem workflow_mutates_argument:
  "(truthy uri \<and> updateRegistration uri r hr pr h s = (res, h', s')
    \<longrightarrow> h' r = AList.update ''resource'' (JStr ''reg'') (h r)
        \<and> js_get (JObj (h' r)) ''resource'' = JStr ''reg''
        \<and> (\<forall>q. q \<noteq> r \<longrightarrow> h' q = h q)
        \<and> (\<exists>rqs. sent s' = sent s @ rqs
               \<and> post_requests uri (privateKey s) (JObj (h' r)) False rqs)
        \<and> (\<forall>n s1. priv_nonce uri hr s = (Fulfilled n, s1) \<longrightarrow>
              sent s' = sent s1 @ [POST uri (Signed (privateKey s) n (JObj (h' r))) False]))
   \<and> (respondToChallenge c hr pr h s = (Inr p, h2, s2)
    \<longrightarrow> (\<exists>ka. keyAuthorization_of (js_get (JObj (h c)) ''token'') (thumbprint (privateKey s))
                 = Inr ka
              \<and> h2 c = AList.update ''keyAuthorization'' (JStr ka)
                          (AList.update ''resource'' (JStr ''challenge'') (h c))
              \<and> js_get (JObj (h2 c)) ''keyAuthorization'' = JStr ka)
        \<and> js_get (JObj (h2 c)) ''resource'' = JStr ''challenge''
        \<and> (\<forall>q. q \<noteq> c \<longrightarrow> h2 q = h q)
        \<and> (\<exists>rqs. sent s2 = sent s @ rqs
               \<and> post_requests (js_get (JObj (h c)) ''uri'') (privateKey s) (JObj (h2 c)) False rqs)
        \<and> (\<forall>n s1. priv_nonce (js_get (JObj (h c)) ''uri'') hr s = (Fulfilled n, s1) \<longrightarrow>
              sent s2 = sent s1 @ [POST (js_get (JObj (h c)) ''uri'')
                                     (Signed (privateKey s) n (JObj (h2 c))) False]))
   \<and> (truthy (js_get (JObj (h c)) ''uri'')
        \<and> keyAuthorization_of (js_get (JObj (h c)) ''token'') (thumbprint (privateKey s)) = Inl e
    \<longrightarrow> respondToChallenge c hr pr h s
          = (Inl e, h(c := AList.update ''resource'' (JStr ''challenge'') (h c)), s))"
proof (intro conjI impI)
  assume a: "truthy uri \<and> updateRegistration uri r hr pr h s = (res, h', s')"
  define reg where "reg = AList.update ''resource'' (JStr ''reg'') (h r)"
  from a have t: "truthy uri" and eq: "updateRegistration uri r hr pr h s = (res, h', s')"
    by blast+
  have "updateRegistration uri r hr pr h s
      = (Inr (fst (priv_post uri (Ref r) False hr pr (h(r := reg)) s)), h(r := reg),
         snd (priv_post uri (Ref r) False hr pr (h(r := reg)) s))"
    unfolding updateRegistration_Inr [OF t] Let_def reg_def by simp
  with eq have "(res, h', s')
      = (Inr (fst (priv_post uri (Ref r) False hr pr (h(r := reg)) s)), h(r := reg),
         snd (priv_post uri (Ref r) False hr pr (h(r := reg)) s))"
    by (simp only:)
  then have h': "h' = h(r := reg)"
    and s': "s' = snd (priv_post uri (Ref r) False hr pr (h(r := reg)) s)"
    by (simp_all only: prod.inject)
  have hr': "h' r = reg" by (simp add: h')
  show "h' r = AList.update ''resource'' (JStr ''reg'') (h r)"
    unfolding hr' reg_def ..
  show "js_get (JObj (h' r)) ''resource'' = JStr ''reg''"
    unfolding hr' reg_def by (simp add: update_conv')
  show "\<forall>q. q \<noteq> r \<longrightarrow> h' q = h q"
    by (simp add: h')
  show "\<exists>rqs. sent s' = sent s @ rqs \<and> post_requests uri (privateKey s) (JObj (h' r)) False rqs"
    using priv_post_sent [of uri "Ref r" False hr pr "h(r := reg)" s]
    by (simp add: s' hr')
  show "\<forall>n s1. priv_nonce uri hr s = (Fulfilled n, s1) \<longrightarrow>
              sent s' = sent s1 @ [POST uri (Signed (privateKey s) n (JObj (h' r))) False]"
    using priv_post_fulfilled [of uri hr s _ _ "Ref r" False pr "h(r := reg)"]
    by (simp add: s' hr')
next
  assume eq: "respondToChallenge c hr pr h s = (Inr p, h2, s2)"
  then obtain ka where t: "truthy (js_get (JObj (h c)) ''uri'')"
    and ka: "keyAuthorization_of (js_get (JObj (h c)) ''token'') (thumbprint (privateKey s)) = Inr ka"
    by (rule respondToChallenge_returns)
  define ch where "ch = AList.update ''keyAuthorization'' (JStr ka)
      (AList.update ''resource'' (JStr ''challenge'') (h c))"
  define uri' where "uri' = js_get (JObj (h c)) ''uri''"
  have "(Inr p, h2, s2) = respondToChallenge c hr pr h s"
    by (rule eq [symmetric])
  also have "\<dots>
      = (Inr (fst (priv_post uri' (Ref c) False hr pr (h(c := ch)) s)), h(c := ch),
         snd (priv_post uri' (Ref c) False hr pr (h(c := ch)) s))"
    unfolding ch_def uri'_def
    by (rule respondToChallenge_Inr [where h = h and c = c, OF t ka])
  finally have h2: "h2 = h(c := ch)"
    and s2: "s2 = snd (priv_post uri' (Ref c) False hr pr (h(c := ch)) s)"
    by (simp_all only: prod.inject)
  have hc: "h2 c = ch" by (simp add: h2)
  have "js_get (JObj (h2 c)) ''keyAuthorization'' = JStr ka"
    unfolding hc ch_def by (simp add: update_conv')
  with ka hc
  show "\<exists>ka. keyAuthorization_of (js_get (JObj (h c)) ''token'') (thumbprint (privateKey s))
                 = Inr ka
              \<and> h2 c = AList.update ''keyAuthorization'' (JStr ka)
                          (AList.update ''resource'' (JStr ''challenge'') (h c))
              \<and> js_get (JObj (h2 c)) ''keyAuthorization'' = JStr ka"
    unfolding ch_def by blast
  show "js_get (JObj (h2 c)) ''resource'' = JStr ''challenge''"
    unfolding hc ch_def by (simp add: update_conv')
  show "\<forall>q. q \<noteq> c \<longrightarrow> h2 q = h q"
    by (simp add: h2)
  show "\<exists>rqs. sent s2 = sent s @ rqs
               \<and> post_requests (js_get (JObj (h c)) ''uri'') (privateKey s) (JObj (h2 c)) False rqs"
    using priv_post_sent [of uri' "Ref c" False hr pr "h(c := ch)" s]
    by (simp add: s2 hc uri'_def del: js_get.simps)
  show "\<forall>n s1. priv_nonce (js_get (JObj (h c)) ''uri'') hr s = (Fulfilled n, s1) \<longrightarrow>
              sent s2 = sent s1 @ [POST (js_get (JObj (h c)) ''uri'')
                                     (Signed (privateKey s) n (JObj (h2 c))) False]"
    using priv_post_fulfilled [of uri' hr s _ _ "Ref c" False pr "h(c := ch)"]
    by (simp add: s2 hc uri'_def del: js_get.simps)
next
  assume "truthy (js_get (JObj (h c)) ''uri'')
        \<and> keyAuthorization_of (js_get (JObj (h c)) ''token'') (thumbprint (privateKey s)) = Inl e"
  then show "respondToChallenge c hr pr h s
          = (Inl e, h(c := AList.update ''resource'' (JStr ''challenge'') (h c)), s)"
    using respondToChallenge_throws [where h = h and c = c] by blast
qed

theorem workflow_mutates_argument_witness:
  "truthy (JStr ''https://ca/reg/1'')
   \<and> fst (snd (updateRegistration (JStr ''https://ca/reg/1'') 0 (Inl (RequestError ''unused''))
                (Inr \<lparr>headers = [], body = JObj []\<rparr>)
                (\<lambda>r. [(''contact'', JArr [JStr ''mailto:a@example.com''])])
                ((new_state \<lparr>thumbprint = Data (JStr ''K'')\<rparr> ''https://ca/directory'')
                   \<lparr>nonces := [''n1'']\<rparr>))) 0
       = [(''contact'', JArr [JStr ''mailto:a@example.com'']), (''resource'', JStr ''reg'')]
   \<and> fst (respondToChallenge 0 (Inl (RequestError ''unused''))
            (Inr \<lparr>headers = [], body = JObj []\<rparr>)
            (\<lambda>r. [(''uri'', JStr ''https://ca/chal/1''), (''token'', JStr ''T'')])
            ((new_state \<lparr>thumbprint = Data (JStr ''K'')\<rparr> ''https://ca/directory'')
               \<lparr>nonces := [''n1'']\<rparr>))
       = Inr (Fulfilled \<lparr>w_body = JObj [], w_links = None, w_location = None\<rparr>)
   \<and> fst (snd (respondToChallenge 0 (Inl (RequestError ''unused''))
                (Inr \<lparr>headers = [], body = JObj []\<rparr>)
                (\<lambda>r. [(''uri'', JStr ''https://ca/chal/1''), (''token'', JStr ''T'')])
                ((new_state \<lparr>thumbprint = Data (JStr ''K'')\<rparr> ''https://ca/directory'')
                   \<lparr>nonces := [''n1'']\<rparr>))) 0
       = [(''uri'', JStr ''https://ca/chal/1''), (''token'', JStr ''T''),
          (''resource'', JStr ''challenge''), (''keyAuthorization'', JStr ''T.K'')]
   \<and> keyAuthorization_of (JObj [(''toString'', JNull)]) (Data (JStr ''K''))
       = Inl (TypeError ''Cannot convert object to primitive value'')
   \<and> fst (snd (respondToChallenge 0 (Inl (RequestError ''unused''))
                (Inr \<lparr>headers = [], body = JObj []\<rparr>)
                (\<lambda>r. [(''uri'', JStr ''https://ca/chal/1''),
                       (''token'', JObj [(''toString'', JNull)])])
                (new_state \<lparr>thumbprint = Data (JStr ''K'')\<rparr> ''https://ca/directory''))) 0
       = [(''uri'', JStr ''https://ca/chal/1''), (''token'', JObj [(''toString'', JNull)]),
          (''resource'', JStr ''challenge'')]"
proof -
  let ?reg = "\<lambda>r::nat. [(''contact'', JArr [JStr ''mailto:a@example.com''])]"
  let ?chal = "\<lambda>r::nat. [(''uri'', JStr ''https://ca/chal/1''), (''token'', JStr ''T'')]"
  let ?bad = "\<lambda>r::nat. [(''uri'', JStr ''https://ca/chal/1''),
                          (''token'', JObj [(''toString'', JNull)])]"
  let ?new = "new_state \<lparr>thumbprint = Data (JStr ''K'')\<rparr> ''https://ca/directory''"
  let ?st = "?new\<lparr>nonces := [''n1'']\<rparr>"
  let ?hr = "Inl (RequestError ''unused'') :: reply"
  let ?pr = "Inr \<lparr>headers = [], body = JObj []\<rparr> :: reply"
  let ?u = "updateRegistration (JStr ''https://ca/reg/1'') 0 ?hr ?pr ?reg ?st"
  let ?c = "respondToChallenge 0 ?hr ?pr ?chal ?st"
  let ?w = "\<lparr>w_body = JObj [], w_links = None, w_location = None\<rparr>"
  have t1: "truthy (JStr ''https://ca/reg/1'')"
    and t3: "truthy (js_get (JObj (?bad 0)) ''uri'')"
    by simp_all
  have e1: "?u = (fst ?u, fst (snd ?u), snd (snd ?u))"
    by simp
  have f2: "fst ?c = Inr (Fulfilled ?w)"
    by (simp add: respondToChallenge_def keyAuthorization_of_def to_string_def Let_def
          priv_post_def priv_nonce_def generateSignature_def post_response_def header_def
          deposit_def new_state_def)
  then have e2: "?c = (Inr (Fulfilled ?w), fst (snd ?c), snd (snd ?c))"
    by (metis prod.collapse)
  have k: "keyAuthorization_of (js_get (JObj (?chal 0)) ''token'') (thumbprint (privateKey ?st))
      = Inr ''T.K''"
    by (simp add: keyAuthorization_of_def to_string_def new_state_def)
  have kb: "keyAuthorization_of (js_get (JObj (?bad 0)) ''token'') (thumbprint (privateKey ?new))
      = Inl (TypeError ''Cannot convert object to primitive value'')"
    by (simp add: keyAuthorization_of_def to_string_def new_state_def)
  from workflow_mutates_argument
         [of "JStr ''https://ca/reg/1''" 0 ?hr ?pr ?reg ?st "fst ?u" "fst (snd ?u)" "snd (snd ?u)"]
       t1 e1
  have a: "fst (snd ?u) 0 = AList.update ''resource'' (JStr ''reg'') (?reg 0)"
    by blast
  from workflow_mutates_argument
         [of _ _ ?hr ?pr ?chal ?st _ _ _ 0 "Fulfilled ?w" "fst (snd ?c)" "snd (snd ?c)"]
       e2 k
  have b: "fst (snd ?c) 0 = AList.update ''keyAuthorization'' (JStr ''T.K'')
                  (AList.update ''resource'' (JStr ''challenge'') (?chal 0))"
    by auto
  from workflow_mutates_argument
         [of _ _ ?hr ?pr ?bad ?new _ _ _ 0 _ _ _
             "TypeError ''Cannot convert object to primitive value''"]
       t3 kb
  have c: "respondToChallenge 0 ?hr ?pr ?bad ?new
      = (Inl (TypeError ''Cannot convert object to primitive value''),
         ?bad(0 := AList.update ''resource'' (JStr ''challenge'') (?bad 0)), ?new)"
    by blast
  have kb': "keyAuthorization_of (JObj [(''toString'', JNull)]) (Data (JStr ''K''))
       = Inl (TypeError ''Cannot convert object to primitive value'')"
    using kb by (simp add: new_state_def)
  from a b c f2 t1 kb' show ?thesis
    by simp
qed

end
